theory Spec2Isabelle
  imports Main
begin

section \<open>The Kubernetes job tracker of drmaa2os\<close>

text \<open>
  A shallow embedding of \<^verbatim>\<open>pkg/jobtracker/kubernetestracker/kubernetestracker.go\<close>.
  Go's multiple return values are tuples, a Go \<^verbatim>\<open>error\<close> is an
  \<open>error option\<close> (\<open>None\<close> is \<^verbatim>\<open>nil\<close>), a pointer is an option of
  what it points to or of an address. Every call that reaches the cluster takes the
  cluster and returns it, so what a method does to the cluster is part of its value.
\<close>

subsection \<open>Data\<close>

text \<open>
  A Go \<^verbatim>\<open>error\<close>: the value built by \<^verbatim>\<open>errors.New\<close> and by
  \<^verbatim>\<open>fmt.Errorf\<close> without \<^verbatim>\<open>%w\<close>, or an error value of another dynamic
  type (of the cluster client or of a helper), told apart by a tag.
\<close>

datatype error = ErrorString string | ForeignError nat string

fun Error :: "error \<Rightarrow> string" where
  "Error (ErrorString m) = m"
| "Error (ForeignError t m) = m"

text \<open>\<^verbatim>\<open>fmt.Errorf(prefix + "%s", err.Error())\<close>\<close>

definition Errorf :: "string \<Rightarrow> error \<Rightarrow> error" where
  "Errorf prefix err = ErrorString (prefix @ Error err)"

text \<open>\<^verbatim>\<open>drmaa2interface.JobState\<close>\<close>

datatype JobState =
  Unset | Undetermined | Queued | QueuedHeld | Running | Suspended
  | Requeued | RequeuedHeld | Done | Failed

text \<open>The fields of \<^verbatim>\<open>drmaa2interface.JobTemplate\<close> the tracker's package reads.\<close>

record JobTemplate =
  RemoteCommand :: string
  Args :: "string list"
  JobName :: string
  JobCategory :: string
  ExtensionList :: "(string \<times> string) list"

definition K8S_JT_EXTENSION_NAMESPACE :: string where
  "K8S_JT_EXTENSION_NAMESPACE = ''namespace''"

definition K8S_JT_EXTENSION_LABELS :: string where
  "K8S_JT_EXTENSION_LABELS = ''labels''"

text \<open>\<^verbatim>\<open>drmaa2interface.JobInfo\<close>, and its zero value \<^verbatim>\<open>JobInfo{}\<close>.\<close>

record JobInfo =
  ID :: string
  ExitStatus :: int
  State :: JobState
  SubState :: string

definition JobInfo_zero :: JobInfo where
  "JobInfo_zero = \<lparr>ID = [], ExitStatus = 0, State = Unset, SubState = []\<rparr>"

text \<open>\<^verbatim>\<open>batchv1.Job\<close> (object metadata only) and \<^verbatim>\<open>batchv1.JobList\<close>.\<close>

record Job =
  Name :: string
  Namespace :: string
  Labels :: "(string \<times> string) list"

record JobList =
  Items :: "Job list"

text \<open>\<^verbatim>\<open>k8sapi.ListOptions\<close> and \<^verbatim>\<open>k8sapi.CreateOptions\<close>, with their zero values.\<close>

record ListOptions =
  LabelSelector :: string
  FieldSelector :: string
  Limit :: int
  Continue :: string

definition ListOptions_zero :: ListOptions where
  "ListOptions_zero = \<lparr>LabelSelector = [], FieldSelector = [], Limit = 0, Continue = []\<rparr>"

record CreateOptions =
  DryRun :: "string list"
  FieldManager :: string

definition CreateOptions_zero :: CreateOptions where
  "CreateOptions_zero = \<lparr>DryRun = [], FieldManager = []\<rparr>"

text \<open>
  \<^verbatim>\<open>*kubernetes.Clientset\<close>: \<open>None\<close> is the nil pointer, \<open>Some a\<close> the client at
  address \<open>a\<close>.
\<close>

type_synonym Clientset_ptr = "nat option"

record KubernetesTracker =
  clientSet :: Clientset_ptr
  jobsession :: string

text \<open>
  The program state a method runs in: the struct its receiver \<^verbatim>\<open>kt\<close> points to, and
  the cluster (everything behind the client). A method returns its results and the
  state it leaves. The receiver is a tracker that exists: a call on the nil pointer
  is not modelled.
\<close>

record 'w state =
  tracker :: KubernetesTracker
  cluster :: 'w

text \<open>
  The argument \<^verbatim>\<open>jobTrackerInitParams interface{}\<close>: the nil interface, an
  interface holding a \<^verbatim>\<open>*kubernetes.Clientset\<close> (which may be the nil pointer), or
  an interface holding a value of another type, named by that type.
\<close>

datatype InitParams = NilInterface | IsClientset Clientset_ptr | OtherType string

text \<open>
  The result type \<^verbatim>\<open>jobtracker.JobTracker\<close> of the allocator: the nil interface, or
  an interface holding a \<^verbatim>\<open>*KubernetesTracker\<close> (\<open>None\<close> the nil pointer).
\<close>

datatype JobTrackerValue = NilJobTracker | IsKubernetesTracker "KubernetesTracker option"

text \<open>
  The methods a helper of \<^verbatim>\<open>pkg/helper\<close> can call on the tracker it is handed as a
  \<^verbatim>\<open>jobtracker.JobTracker\<close>. The model hands it the eight that do not themselves
  pass the tracker on to such a helper; AddArrayJob and Wait, which a helper would
  have to call from within itself, are left out.
\<close>

record 's JobTracker =
  jt_ListJobCategories :: "'s \<Rightarrow> (string list \<times> error option) \<times> 's"
  jt_ListJobs :: "'s \<Rightarrow> (string list \<times> error option) \<times> 's"
  jt_AddJob :: "JobTemplate \<Rightarrow> 's \<Rightarrow> (string \<times> error option) \<times> 's"
  jt_ListArrayJobs :: "string \<Rightarrow> 's \<Rightarrow> (string list \<times> error option) \<times> 's"
  jt_JobState :: "string \<Rightarrow> 's \<Rightarrow> (JobState \<times> string \<times> error option) \<times> 's"
  jt_JobInfo :: "string \<Rightarrow> 's \<Rightarrow> (JobInfo \<times> error option) \<times> 's"
  jt_JobControl :: "string \<Rightarrow> string \<Rightarrow> 's \<Rightarrow> error option \<times> 's"
  jt_DeleteJob :: "string \<Rightarrow> 's \<Rightarrow> error option \<times> 's"

text \<open>
  What the file calls and does not define: the other functions of the package
  (\<^verbatim>\<open>NewClientSet\<close>, \<^verbatim>\<open>getJobsClient\<close>, \<^verbatim>\<open>convertJob\<close>, \<^verbatim>\<open>DRMAA2State\<close>,
  \<^verbatim>\<open>JobToJobInfo\<close>, \<^verbatim>\<open>getJobInterfaceAndJob\<close>, \<^verbatim>\<open>jobStateChange\<close>,
  \<^verbatim>\<open>deleteJob\<close>), the methods \<^verbatim>\<open>List\<close> and \<^verbatim>\<open>Create\<close> of the jobs client
  \<open>'jc\<close> (\<^verbatim>\<open>batchv1.JobInterface\<close>), and the helpers of \<^verbatim>\<open>pkg/helper\<close>. They are
  parameters. A function that is given the clientset or the jobs client may use the
  cluster; \<^verbatim>\<open>convertJob\<close> and \<^verbatim>\<open>ArrayJobID2GUIDs\<close> are given neither. Go's
  \<^verbatim>\<open>int\<close> and \<^verbatim>\<open>time.Duration\<close> (nanoseconds) are \<open>int\<close>: the file passes
  them on and computes nothing with them.
\<close>

record ('jc, 'w) env =
  NewClientSet :: "'w \<Rightarrow> (Clientset_ptr \<times> error option) \<times> 'w"
  getJobsClient :: "Clientset_ptr \<Rightarrow> 'w \<Rightarrow> ('jc \<times> error option) \<times> 'w"
  convertJob :: "string \<Rightarrow> JobTemplate \<Rightarrow> Job \<times> error option"
  jc_List :: "'jc \<Rightarrow> ListOptions \<Rightarrow> 'w \<Rightarrow> (JobList \<times> error option) \<times> 'w"
  jc_Create :: "'jc \<Rightarrow> Job \<Rightarrow> CreateOptions \<Rightarrow> 'w \<Rightarrow> (Job \<times> error option) \<times> 'w"
  DRMAA2State :: "'jc \<Rightarrow> string \<Rightarrow> 'w \<Rightarrow> JobState \<times> 'w"
  JobToJobInfo :: "'jc \<Rightarrow> string \<Rightarrow> 'w \<Rightarrow> (JobInfo \<times> error option) \<times> 'w"
  getJobInterfaceAndJob :: "Clientset_ptr \<Rightarrow> string \<Rightarrow> 'w \<Rightarrow> ('jc \<times> Job \<times> error option) \<times> 'w"
  jobStateChange :: "'jc \<Rightarrow> Job \<Rightarrow> string \<Rightarrow> 'w \<Rightarrow> error option \<times> 'w"
  deleteJob :: "'jc \<Rightarrow> Job \<Rightarrow> 'w \<Rightarrow> error option \<times> 'w"
  AddArrayJobAsSingleJobs ::
    "JobTemplate \<Rightarrow> 'w state JobTracker \<Rightarrow> int \<Rightarrow> int \<Rightarrow> int \<Rightarrow> 'w state
      \<Rightarrow> (string \<times> error option) \<times> 'w state"
  ArrayJobID2GUIDs :: "string \<Rightarrow> string list \<times> error option"
  WaitForState ::
    "'w state JobTracker \<Rightarrow> string \<Rightarrow> int \<Rightarrow> JobState list \<Rightarrow> 'w state
      \<Rightarrow> error option \<times> 'w state"

subsection \<open>Construction\<close>

text \<open>
  \<^verbatim>\<open>New(jobsession, cs)\<close>: a nil \<^verbatim>\<open>cs\<close> is replaced by the result of
  \<^verbatim>\<open>NewClientSet()\<close>, whose error is returned as it is.
\<close>

definition New ::
  "('jc, 'w) env \<Rightarrow> string \<Rightarrow> Clientset_ptr \<Rightarrow> 'w
    \<Rightarrow> (KubernetesTracker option \<times> error option) \<times> 'w" where
  "New env session cs w =
     (case cs of
        None \<Rightarrow>
          (case NewClientSet env w of
             ((cs', err), w') \<Rightarrow>
               (case err of
                  Some e \<Rightarrow> ((None, Some e), w')
                | None \<Rightarrow> ((Some \<lparr>clientSet = cs', jobsession = session\<rparr>, None), w')))
      | Some a \<Rightarrow> ((Some \<lparr>clientSet = cs, jobsession = session\<rparr>, None), w))"

text \<open>
  The type assertion \<^verbatim>\<open>jobTrackerInitParams.(*kubernetes.Clientset)\<close> in its
  two-result form: the pointer held and \<^verbatim>\<open>ok\<close>.
\<close>

fun assert_Clientset :: "InitParams \<Rightarrow> Clientset_ptr \<times> bool" where
  "assert_Clientset (IsClientset p) = (p, True)"
| "assert_Clientset NilInterface = (None, False)"
| "assert_Clientset (OtherType t) = (None, False)"

text \<open>
  \<^verbatim>\<open>(a *allocator) New(jobSessionName, jobTrackerInitParams)\<close>. The result of
  \<^verbatim>\<open>New\<close> is returned as a \<^verbatim>\<open>jobtracker.JobTracker\<close>, so it is an interface
  holding the pointer \<^verbatim>\<open>New\<close> returned.
\<close>

definition allocator_New ::
  "('jc, 'w) env \<Rightarrow> string \<Rightarrow> InitParams \<Rightarrow> 'w
    \<Rightarrow> (JobTrackerValue \<times> error option) \<times> 'w" where
  "allocator_New env jobSessionName jobTrackerInitParams w =
     (let returnNew = (\<lambda>cs. case New env jobSessionName cs w of
                           ((kt, err), w') \<Rightarrow> ((IsKubernetesTracker kt, err), w'))
      in if jobTrackerInitParams \<noteq> NilInterface then
           (case assert_Clientset jobTrackerInitParams of
              (cs, ok) \<Rightarrow>
                if \<not> ok then
                  ((NilJobTracker,
                    Some (ErrorString
                      ''jobTrackerInitParams is not of type *kubernetes.Clientset'')), w)
                else returnNew cs)
         else returnNew None)"

subsection \<open>The methods of the tracker\<close>

definition ListJobCategories :: "'w state \<Rightarrow> (string list \<times> error option) \<times> 'w state" where
  "ListJobCategories s = (([], None), s)"

text \<open>The loop of \<^verbatim>\<open>ListJobs\<close>: \<^verbatim>\<open>ids = append(ids, string(job.Name))\<close> per item.\<close>

fun collect_ids :: "string list \<Rightarrow> Job list \<Rightarrow> string list" where
  "collect_ids ids [] = ids"
| "collect_ids ids (job # rest) = collect_ids (ids @ [Name job]) rest"

definition ListJobs ::
  "('jc, 'w) env \<Rightarrow> 'w state \<Rightarrow> (string list \<times> error option) \<times> 'w state" where
  "ListJobs env s =
     (case getJobsClient env (clientSet (tracker s)) (cluster s) of
        ((jc, err), w1) \<Rightarrow>
          (case err of
             Some e \<Rightarrow> (([], Some (Errorf ''ListJobs: '' e)), s\<lparr>cluster := w1\<rparr>)
           | None \<Rightarrow>
               (let labelSelector = ''drmaa2jobsession='' @ jobsession (tracker s)
                in case jc_List env jc (ListOptions_zero\<lparr>LabelSelector := labelSelector\<rparr>) w1 of
                     ((jobsList, err), w2) \<Rightarrow>
                       (case err of
                          Some e \<Rightarrow>
                            (([], Some (Errorf ''listing jobs with client: '' e)),
                             s\<lparr>cluster := w2\<rparr>)
                        | None \<Rightarrow>
                            ((collect_ids [] (Items jobsList), None), s\<lparr>cluster := w2\<rparr>)))))"

definition AddJob ::
  "('jc, 'w) env \<Rightarrow> JobTemplate \<Rightarrow> 'w state \<Rightarrow> (string \<times> error option) \<times> 'w state" where
  "AddJob env jt s =
     (case convertJob env (jobsession (tracker s)) jt of
        (job, err) \<Rightarrow>
          (case err of
             Some e \<Rightarrow>
               (([], Some (Errorf ''converting job template into a k8s job: '' e)), s)
           | None \<Rightarrow>
               (case getJobsClient env (clientSet (tracker s)) (cluster s) of
                  ((jc, err), w1) \<Rightarrow>
                    (case err of
                       Some e \<Rightarrow> (([], Some (Errorf ''get client: '' e)), s\<lparr>cluster := w1\<rparr>)
                     | None \<Rightarrow>
                         (case jc_Create env jc job CreateOptions_zero w1 of
                            ((j, err), w2) \<Rightarrow>
                              (case err of
                                 Some e \<Rightarrow>
                                   (([], Some (Errorf ''creating new job: '' e)),
                                    s\<lparr>cluster := w2\<rparr>)
                               | None \<Rightarrow> ((Name j, None), s\<lparr>cluster := w2\<rparr>)))))))"

definition ListArrayJobs ::
  "('jc, 'w) env \<Rightarrow> string \<Rightarrow> 'w state \<Rightarrow> (string list \<times> error option) \<times> 'w state" where
  "ListArrayJobs env arrayid s = (ArrayJobID2GUIDs env arrayid, s)"

definition JobState ::
  "('jc, 'w) env \<Rightarrow> string \<Rightarrow> 'w state
    \<Rightarrow> (JobState \<times> string \<times> error option) \<times> 'w state" where
  "JobState env jobid s =
     (case getJobsClient env (clientSet (tracker s)) (cluster s) of
        ((jc, err), w1) \<Rightarrow>
          (case err of
             Some e \<Rightarrow> ((Undetermined, [], None), s\<lparr>cluster := w1\<rparr>)
           | None \<Rightarrow>
               (case DRMAA2State env jc jobid w1 of
                  (st, w2) \<Rightarrow> ((st, [], None), s\<lparr>cluster := w2\<rparr>))))"

definition JobInfo ::
  "('jc, 'w) env \<Rightarrow> string \<Rightarrow> 'w state \<Rightarrow> (JobInfo \<times> error option) \<times> 'w state" where
  "JobInfo env jobid s =
     (case getJobsClient env (clientSet (tracker s)) (cluster s) of
        ((jc, err), w1) \<Rightarrow>
          (case err of
             Some e \<Rightarrow> ((JobInfo_zero, Some e), s\<lparr>cluster := w1\<rparr>)
           | None \<Rightarrow>
               (case JobToJobInfo env jc jobid w1 of
                  (r, w2) \<Rightarrow> (r, s\<lparr>cluster := w2\<rparr>))))"

definition JobControl ::
  "('jc, 'w) env \<Rightarrow> string \<Rightarrow> string \<Rightarrow> 'w state \<Rightarrow> error option \<times> 'w state" where
  "JobControl env jobid action s =
     (case getJobInterfaceAndJob env (clientSet (tracker s)) jobid (cluster s) of
        ((jc, job, err), w1) \<Rightarrow>
          (case err of
             Some e \<Rightarrow> (Some (Errorf ''JobControl: '' e), s\<lparr>cluster := w1\<rparr>)
           | None \<Rightarrow>
               (case jobStateChange env jc job action w1 of
                  (r, w2) \<Rightarrow> (r, s\<lparr>cluster := w2\<rparr>))))"

definition DeleteJob ::
  "('jc, 'w) env \<Rightarrow> string \<Rightarrow> 'w state \<Rightarrow> error option \<times> 'w state" where
  "DeleteJob env jobid s =
     (case getJobInterfaceAndJob env (clientSet (tracker s)) jobid (cluster s) of
        ((jc, job, err), w1) \<Rightarrow>
          (case err of
             Some e \<Rightarrow> (Some (Errorf ''DeleteJob: '' e), s\<lparr>cluster := w1\<rparr>)
           | None \<Rightarrow>
               (case deleteJob env jc job w1 of
                  (r, w2) \<Rightarrow> (r, s\<lparr>cluster := w2\<rparr>))))"

text \<open>The tracker \<^verbatim>\<open>kt\<close> as the helpers of \<^verbatim>\<open>pkg/helper\<close> receive it.\<close>

definition as_JobTracker :: "('jc, 'w) env \<Rightarrow> 'w state JobTracker" where
  "as_JobTracker env =
     \<lparr>jt_ListJobCategories = ListJobCategories,
      jt_ListJobs = ListJobs env,
      jt_AddJob = AddJob env,
      jt_ListArrayJobs = ListArrayJobs env,
      jt_JobState = JobState env,
      jt_JobInfo = JobInfo env,
      jt_JobControl = JobControl env,
      jt_DeleteJob = DeleteJob env\<rparr>"

definition AddArrayJob ::
  "('jc, 'w) env \<Rightarrow> JobTemplate \<Rightarrow> int \<Rightarrow> int \<Rightarrow> int \<Rightarrow> int \<Rightarrow> 'w state
    \<Rightarrow> (string \<times> error option) \<times> 'w state" where
  "AddArrayJob env jt begin end step maxParallel s =
     AddArrayJobAsSingleJobs env jt (as_JobTracker env) begin end step s"

definition Wait ::
  "('jc, 'w) env \<Rightarrow> string \<Rightarrow> int \<Rightarrow> JobState list \<Rightarrow> 'w state \<Rightarrow> error option \<times> 'w state" where
  "Wait env jobid timeout states s = WaitForState env (as_JobTracker env) jobid timeout states s"

subsection \<open>What the frame of the tracker rests on\<close>




subsection \<open>A small cluster to run the tracker on\<close>

text \<open>
  An instance of the parameters, for evaluating the methods at concrete inputs. The
  cluster is the list of its jobs and whether its API server answers; the jobs client
  is the namespace it is bound to.
\<close>

record lab_cluster =
  jobs :: "Job list"
  answers :: bool

definition Job_zero :: Job where
  "Job_zero = \<lparr>Name = [], Namespace = [], Labels = []\<rparr>"

definition unreachable :: error where
  "unreachable = ForeignError 1 ''connection refused''"

definition not_found :: error where
  "not_found = ForeignError 2 ''job not found''"

text \<open>
  Modelled from the spec: \<^verbatim>\<open>getJobsClient\<close>, of the package and not in the file;
  the jobs client of a clientset, and an error where there is no client.
\<close>

definition lab_getJobsClient ::
  "Clientset_ptr \<Rightarrow> lab_cluster \<Rightarrow> (string \<times> error option) \<times> lab_cluster" where
  "lab_getJobsClient cs w =
     (case cs of
        None \<Rightarrow> (([], Some (ErrorString ''no clientset'')), w)
      | Some a \<Rightarrow> ((''default'', None), w))"

text \<open>
  Modelled from the spec: \<^verbatim>\<open>convertJob\<close>, of the package and not in the file; the
  conversion of a job template into a workload, which carries the label
  \<^verbatim>\<open>drmaa2jobsession=<session name>\<close>; a template without a command is refused.
\<close>

definition lab_convertJob :: "string \<Rightarrow> JobTemplate \<Rightarrow> Job \<times> error option" where
  "lab_convertJob session jt =
     (if RemoteCommand jt = [] then
        (Job_zero, Some (ErrorString ''RemoteCommand not set in job template''))
      else
        (\<lparr>Name = JobName jt, Namespace = ''default'',
          Labels = [(''drmaa2jobsession'', session)]\<rparr>, None))"

text \<open>
  Modelled from the spec: \<^verbatim>\<open>List\<close> of the jobs client, of the cluster's client
  library; the list call, filtered on the server by the label selector (one
  \<^verbatim>\<open>key=value\<close>; the empty selector selects everything).
\<close>

definition selected :: "string \<Rightarrow> Job \<Rightarrow> bool" where
  "selected sel j \<longleftrightarrow> sel = [] \<or> list_ex (\<lambda>(k, v). k @ ''='' @ v = sel) (Labels j)"

definition lab_List ::
  "string \<Rightarrow> ListOptions \<Rightarrow> lab_cluster \<Rightarrow> (JobList \<times> error option) \<times> lab_cluster" where
  "lab_List jc opts w =
     (if \<not> answers w then ((\<lparr>Items = []\<rparr>, Some unreachable), w)
      else ((\<lparr>Items = filter (\<lambda>j. Namespace j = jc \<and> selected (LabelSelector opts) j) (jobs w)\<rparr>,
             None), w))"

text \<open>
  Modelled from the spec: \<^verbatim>\<open>Create\<close> of the jobs client, of the cluster's client
  library; the create call, which adds the workload to the cluster.
\<close>

definition lab_Create ::
  "string \<Rightarrow> Job \<Rightarrow> CreateOptions \<Rightarrow> lab_cluster \<Rightarrow> (Job \<times> error option) \<times> lab_cluster" where
  "lab_Create jc job opts w =
     (if \<not> answers w then ((Job_zero, Some unreachable), w)
      else ((job\<lparr>Namespace := jc\<rparr>, None), w\<lparr>jobs := jobs w @ [job\<lparr>Namespace := jc\<rparr>]\<rparr>))"

text \<open>
  Modelled from the spec: \<^verbatim>\<open>DRMAA2State\<close>, of the package and not in the file; the
  lifecycle state of a workload, read from the cluster.
\<close>

definition lab_DRMAA2State :: "string \<Rightarrow> string \<Rightarrow> lab_cluster \<Rightarrow> JobState \<times> lab_cluster" where
  "lab_DRMAA2State jc jobid w =
     (if answers w \<and> list_ex (\<lambda>j. Name j = jobid) (jobs w) then (Queued, w)
      else (Undetermined, w))"

text \<open>
  Modelled from the spec: \<^verbatim>\<open>JobToJobInfo\<close>, of the package and not in the file; the
  job-info record of a workload.
\<close>

definition lab_JobToJobInfo ::
  "string \<Rightarrow> string \<Rightarrow> lab_cluster \<Rightarrow> (JobInfo \<times> error option) \<times> lab_cluster" where
  "lab_JobToJobInfo jc jobid w =
     (if answers w \<and> list_ex (\<lambda>j. Name j = jobid) (jobs w) then
        ((\<lparr>ID = jobid, ExitStatus = 0, State = Queued, SubState = []\<rparr>, None), w)
      else ((JobInfo_zero, Some not_found), w))"

text \<open>
  Modelled from the spec: \<^verbatim>\<open>getJobInterfaceAndJob\<close>, of the package and not in the
  file; the lookup of a workload by its name.
\<close>

definition lab_getJobInterfaceAndJob ::
  "Clientset_ptr \<Rightarrow> string \<Rightarrow> lab_cluster
    \<Rightarrow> (string \<times> Job \<times> error option) \<times> lab_cluster" where
  "lab_getJobInterfaceAndJob cs jobid w =
     (case cs of
        None \<Rightarrow> (([], Job_zero, Some (ErrorString ''no clientset'')), w)
      | Some a \<Rightarrow>
          (case find (\<lambda>j. Name j = jobid) (jobs w) of
             None \<Rightarrow> ((''default'', Job_zero, Some not_found), w)
           | Some j \<Rightarrow> ((''default'', j, None), w)))"

text \<open>
  Modelled from the spec: \<^verbatim>\<open>deleteJob\<close>, of the package and not in the file;
  deleting a workload.
\<close>

definition lab_deleteJob :: "string \<Rightarrow> Job \<Rightarrow> lab_cluster \<Rightarrow> error option \<times> lab_cluster" where
  "lab_deleteJob jc job w =
     (if \<not> answers w then (Some unreachable, w)
      else (None, w\<lparr>jobs := filter (\<lambda>j. Name j \<noteq> Name job) (jobs w)\<rparr>))"

text \<open>
  Modelled from the spec: \<^verbatim>\<open>jobStateChange\<close>, of the package and not in the file; a
  control action on a workload; of suspend, resume, hold, release and terminate, the
  lab knows terminate.
\<close>

definition lab_jobStateChange ::
  "string \<Rightarrow> Job \<Rightarrow> string \<Rightarrow> lab_cluster \<Rightarrow> error option \<times> lab_cluster" where
  "lab_jobStateChange jc job action w =
     (if action = ''terminate'' then lab_deleteJob jc job w
      else (Some (ErrorString ''unsupported action''), w))"

text \<open>
  Modelled from the spec: \<^verbatim>\<open>helper.AddArrayJobAsSingleJobs\<close>, of \<^verbatim>\<open>pkg/helper\<close>
  and not among the sources; the array-job helper, which submits the template once
  per task through the tracker's AddJob and returns the composite of the ids; it stops
  at the first error.
\<close>

fun composite :: "string list \<Rightarrow> string" where
  "composite [] = []"
| "composite [g] = g"
| "composite (g # gs) = g @ ''|'' @ composite gs"

fun submit_tasks ::
  "nat \<Rightarrow> JobTemplate \<Rightarrow> 's JobTracker \<Rightarrow> string list \<Rightarrow> 's \<Rightarrow> (string \<times> error option) \<times> 's" where
  "submit_tasks 0 jt t guids s = ((composite guids, None), s)"
| "submit_tasks (Suc n) jt t guids s =
     (case jt_AddJob t jt s of
        ((guid, err), s') \<Rightarrow>
          (case err of
             Some e \<Rightarrow> ((composite guids, Some e), s')
           | None \<Rightarrow> submit_tasks n jt t (guids @ [guid]) s'))"

definition lab_AddArrayJobAsSingleJobs ::
  "JobTemplate \<Rightarrow> 's JobTracker \<Rightarrow> int \<Rightarrow> int \<Rightarrow> int \<Rightarrow> 's \<Rightarrow> (string \<times> error option) \<times> 's" where
  "lab_AddArrayJobAsSingleJobs jt t b e step s =
     (if 0 < step \<and> b \<le> e
      then submit_tasks (nat ((e - b) div step + 1)) jt t [] s
      else submit_tasks 0 jt t [] s)"

text \<open>
  Modelled from the spec: \<^verbatim>\<open>helper.ArrayJobID2GUIDs\<close>, of \<^verbatim>\<open>pkg/helper\<close> and not
  among the sources; the composite identifier decoded into the job ids.
\<close>

fun guids_of :: "string \<Rightarrow> string \<Rightarrow> string list" where
  "guids_of cur [] = [cur]"
| "guids_of cur (c # cs) = (if c = CHR ''|'' then cur # guids_of [] cs else guids_of (cur @ [c]) cs)"

definition lab_ArrayJobID2GUIDs :: "string \<Rightarrow> string list \<times> error option" where
  "lab_ArrayJobID2GUIDs arrayid =
     (if arrayid = [] then ([], Some (ErrorString ''empty array job id''))
      else (guids_of [] arrayid, None))"

text \<open>
  Modelled from the spec: \<^verbatim>\<open>helper.WaitForState\<close>, of \<^verbatim>\<open>pkg/helper\<close> and not
  among the sources; the wait helper, which polls the tracker's JobState until the job
  is in one of the target states, and fails when the timeout (in nanoseconds, one poll
  per second) has elapsed or a poll fails.
\<close>

fun poll ::
  "nat \<Rightarrow> 's JobTracker \<Rightarrow> string \<Rightarrow> JobState list \<Rightarrow> 's \<Rightarrow> error option \<times> 's" where
  "poll 0 t jobid states s = (Some (ErrorString ''timeout while waiting for job state''), s)"
| "poll (Suc n) t jobid states s =
     (case jt_JobState t jobid s of
        ((st, sub, err), s') \<Rightarrow>
          (case err of
             Some e \<Rightarrow> (Some e, s')
           | None \<Rightarrow> if st \<in> set states then (None, s') else poll n t jobid states s'))"

definition lab_WaitForState ::
  "'s JobTracker \<Rightarrow> string \<Rightarrow> int \<Rightarrow> JobState list \<Rightarrow> 's \<Rightarrow> error option \<times> 's" where
  "lab_WaitForState t jobid timeout states s =
     poll (nat (timeout div 1000000000)) t jobid states s"

text \<open>
  The lab, given what \<^verbatim>\<open>NewClientSet()\<close> (of the package and not in the file)
  returns from the ambient configuration.
\<close>

definition lab :: "Clientset_ptr \<times> error option \<Rightarrow> (string, lab_cluster) env" where
  "lab ambient =
     \<lparr>NewClientSet = (\<lambda>w. (ambient, w)),
      getJobsClient = lab_getJobsClient,
      convertJob = lab_convertJob,
      jc_List = lab_List,
      jc_Create = lab_Create,
      DRMAA2State = lab_DRMAA2State,
      JobToJobInfo = lab_JobToJobInfo,
      getJobInterfaceAndJob = lab_getJobInterfaceAndJob,
      jobStateChange = lab_jobStateChange,
      deleteJob = lab_deleteJob,
      AddArrayJobAsSingleJobs = lab_AddArrayJobAsSingleJobs,
      ArrayJobID2GUIDs = lab_ArrayJobID2GUIDs,
      WaitForState = lab_WaitForState\<rparr>"

definition no_config :: "Clientset_ptr \<times> error option" where
  "no_config = (None, Some (ErrorString ''opening .kube/config file''))"

definition sleep_job :: JobTemplate where
  "sleep_job = \<lparr>RemoteCommand = ''sleep'', Args = [''1''], JobName = ''job1'',
                JobCategory = ''busybox'', ExtensionList = []\<rparr>"

definition empty_cluster :: lab_cluster where
  "empty_cluster = \<lparr>jobs = [], answers = True\<rparr>"

definition session1 :: "lab_cluster state" where
  "session1 = \<lparr>tracker = \<lparr>clientSet = Some 1, jobsession = ''session1''\<rparr>,
               cluster = empty_cluster\<rparr>"

definition job1 :: Job where
  "job1 = \<lparr>Name = ''job1'', Namespace = ''default'',
           Labels = [(''drmaa2jobsession'', ''session1'')]\<rparr>"

definition no_command :: JobTemplate where
  "no_command = sleep_job\<lparr>RemoteCommand := []\<rparr>"

definition offline :: "lab_cluster state" where
  "offline = session1\<lparr>cluster := \<lparr>jobs = [], answers = False\<rparr>\<rparr>"

definition no_client :: "lab_cluster state" where
  "no_client = session1\<lparr>tracker := \<lparr>clientSet = None, jobsession = ''session1''\<rparr>\<rparr>"

definition job2 :: Job where
  "job2 = \<lparr>Name = ''job2'', Namespace = ''default'',
           Labels = [(''drmaa2jobsession'', ''session2'')]\<rparr>"

definition job3 :: Job where
  "job3 = \<lparr>Name = ''job3'', Namespace = ''default'',
           Labels = [(''app'', ''batch''), (''drmaa2jobsession'', ''session1'')]\<rparr>"

definition shared :: "lab_cluster state" where
  "shared = session1\<lparr>cluster := \<lparr>jobs = [job1, job2, job3], answers = True\<rparr>\<rparr>"

definition kube_config :: "Clientset_ptr \<times> error option" where
  "kube_config = (Some 7, None)"

subsection \<open>ListJobCategories\<close>

text \<open>
  C6: in every state, ListJobCategories returns the empty list and a nil error, and
  leaves the state as it was.
\<close>

theorem ListJobCategories_empty: "ListJobCategories s = (([], None), s)"
  by (simp add: ListJobCategories_def)

subsection \<open>JobState\<close>

text \<open>
  C1: for every job id, if acquiring the jobs client from the tracker's clientset
  fails, JobState returns Undetermined, the empty substate and a nil error: the error
  of the acquisition is not returned.
\<close>

theorem JobState_client_error_swallowed:
  assumes "getJobsClient env (clientSet (tracker s)) (cluster s) = ((jc, Some e), w1)"
  shows "fst (JobState env jobid s) = (Undetermined, [], None)"
  using assms by (simp add: JobState_def)

theorem JobState_client_error_swallowed_witness:
  "getJobsClient (lab no_config) (clientSet (tracker no_client)) (cluster no_client)
     = (([], Some (ErrorString ''no clientset'')), empty_cluster)
   \<and> fst (JobState (lab no_config) ''job1'' no_client) = (Undetermined, [], None)"
proof -
  have h: "getJobsClient (lab no_config) (clientSet (tracker no_client)) (cluster no_client)
             = (([], Some (ErrorString ''no clientset'')), empty_cluster)"
    by (simp add: lab_def lab_getJobsClient_def no_client_def session1_def)
  from h JobState_client_error_swallowed [OF h, of "''job1''"] show ?thesis
    by simp
qed

text \<open>
  C9: for every job id and every state of the tracker and the cluster, JobState
  returns a nil error and the empty substate; whatever goes wrong in the lookup of the
  state is in the state value returned.
\<close>

theorem JobState_never_errors:
  "snd (snd (fst (JobState env jobid s))) = None \<and> fst (snd (fst (JobState env jobid s))) = []"
  by (simp add: JobState_def split: prod.split option.split)

subsection \<open>AddArrayJob and Wait\<close>

text \<open>
  C8: for every job template, begin, end and step, AddArrayJob returns the same for
  any two values of maxParallel: the argument does not reach the helper.
\<close>

theorem AddArrayJob_ignores_maxParallel:
  "AddArrayJob env jt begin end step maxParallel s = AddArrayJob env jt begin end step maxParallel' s
   \<and> AddArrayJob env jt begin end step maxParallel s
       = AddArrayJobAsSingleJobs env jt (as_JobTracker env) begin end step s"
  by (simp add: AddArrayJob_def)

text \<open>
  C5: for every job id, timeout and list of target states, Wait returns what the
  helper's WaitForState returns for the tracker, that job id, that timeout and those
  states: the same error value (or nil) and the same state left behind.
\<close>

theorem Wait_is_WaitForState:
  "Wait env jobid timeout states s = WaitForState env (as_JobTracker env) jobid timeout states s"
  by (simp add: Wait_def)

subsection \<open>AddJob\<close>

text \<open>
  C3: AddJob converts the template, with the tracker's session name, into a workload,
  creates it through the jobs client and returns the name of the workload created; if
  the conversion fails it returns the empty string and an error whose message is the
  conversion prefix followed by the message of the conversion error; if the create
  call fails it returns the empty string and an error wrapping the error of the call.
\<close>

theorem AddJob_results:
  "(convertJob env (jobsession (tracker s)) jt = (job, None) \<longrightarrow>
    getJobsClient env (clientSet (tracker s)) (cluster s) = ((jc, None), w1) \<longrightarrow>
    jc_Create env jc job CreateOptions_zero w1 = ((j, None), w2) \<longrightarrow>
      AddJob env jt s = ((Name j, None), s\<lparr>cluster := w2\<rparr>))
   \<and> (convertJob env (jobsession (tracker s)) jt = (job, Some e) \<longrightarrow>
      fst (AddJob env jt s)
        = ([], Some (ErrorString (''converting job template into a k8s job: '' @ Error e))))
   \<and> (convertJob env (jobsession (tracker s)) jt = (job, None) \<longrightarrow>
      getJobsClient env (clientSet (tracker s)) (cluster s) = ((jc, None), w1) \<longrightarrow>
      jc_Create env jc job CreateOptions_zero w1 = ((j, Some e), w2) \<longrightarrow>
        fst (AddJob env jt s) = ([], Some (ErrorString (''creating new job: '' @ Error e))))"
  by (simp add: AddJob_def Errorf_def)

theorem AddJob_results_witness:
  "AddJob (lab no_config) sleep_job session1
     = ((''job1'', None), session1\<lparr>cluster := \<lparr>jobs = [job1], answers = True\<rparr>\<rparr>)
   \<and> fst (AddJob (lab no_config) no_command session1)
     = ([], Some (ErrorString
          ''converting job template into a k8s job: RemoteCommand not set in job template''))
   \<and> fst (AddJob (lab no_config) sleep_job offline)
     = ([], Some (ErrorString ''creating new job: connection refused''))"
proof -
  have created: "AddJob (lab no_config) sleep_job session1
      = ((''job1'', None), session1\<lparr>cluster := \<lparr>jobs = [job1], answers = True\<rparr>\<rparr>)"
    using AddJob_results [where env = "lab no_config" and s = session1 and jt = sleep_job
        and job = job1 and jc = "''default''" and ?w1.0 = empty_cluster and j = job1
        and ?w2.0 = "\<lparr>jobs = [job1], answers = True\<rparr>"]
    by (simp add: lab_def lab_convertJob_def lab_getJobsClient_def lab_Create_def
        session1_def sleep_job_def job1_def empty_cluster_def)
  have refused: "fst (AddJob (lab no_config) no_command session1)
      = ([], Some (ErrorString
          ''converting job template into a k8s job: RemoteCommand not set in job template''))"
    using AddJob_results [where env = "lab no_config" and s = session1 and jt = no_command
        and job = Job_zero and e = "ErrorString ''RemoteCommand not set in job template''"]
    by (simp add: lab_def lab_convertJob_def no_command_def sleep_job_def)
  have failed: "fst (AddJob (lab no_config) sleep_job offline)
      = ([], Some (ErrorString ''creating new job: connection refused''))"
    using AddJob_results [where env = "lab no_config" and s = offline and jt = sleep_job
        and job = job1 and jc = "''default''" and ?w1.0 = "\<lparr>jobs = [], answers = False\<rparr>"
        and j = Job_zero and e = unreachable and ?w2.0 = "\<lparr>jobs = [], answers = False\<rparr>"]
    by (simp add: lab_def lab_convertJob_def lab_getJobsClient_def lab_Create_def
        offline_def session1_def sleep_job_def job1_def unreachable_def)
  from created refused failed show ?thesis by simp
qed

text \<open>
  C10: if converting the job template fails, AddJob leaves the tracker and the cluster
  as they were, whatever acquiring the jobs client and the create call would do: it
  returns before either.
\<close>

theorem AddJob_conversion_error_no_effect:
  assumes "convertJob env (jobsession (tracker s)) jt = (job, Some e)"
  shows "snd (AddJob env jt s) = s
         \<and> AddJob (env\<lparr>getJobsClient := g, jc_Create := c\<rparr>) jt s = AddJob env jt s"
  using assms by (simp add: AddJob_def)

theorem AddJob_conversion_error_no_effect_witness:
  "convertJob (lab no_config) (jobsession (tracker session1)) no_command
     = (Job_zero, Some (ErrorString ''RemoteCommand not set in job template''))
   \<and> snd (AddJob (lab no_config) no_command session1) = session1
   \<and> AddJob ((lab no_config)\<lparr>getJobsClient := (\<lambda>cs w. ((''kube-system'', None), w\<lparr>jobs := []\<rparr>)),
                               jc_Create := (\<lambda>jc job opts w. ((job, None), w\<lparr>jobs := [job]\<rparr>))\<rparr>)
        no_command session1
      = AddJob (lab no_config) no_command session1"
proof -
  have h: "convertJob (lab no_config) (jobsession (tracker session1)) no_command
             = (Job_zero, Some (ErrorString ''RemoteCommand not set in job template''))"
    by (simp add: lab_def lab_convertJob_def no_command_def sleep_job_def)
  from h AddJob_conversion_error_no_effect [OF h] show ?thesis
    by simp
qed

subsection \<open>ListJobs\<close>

lemma collect_ids_map: "collect_ids ids items = ids @ map Name items"
  by (induction items arbitrary: ids) simp_all

text \<open>
  C2: for a tracker with session name S, ListJobs calls List with the options whose
  label selector is "drmaa2jobsession=" followed by S and whose other fields are zero;
  when the call succeeds ListJobs returns the names of the items of the list returned,
  in their order, and a nil error; when the jobs client cannot be obtained, or the
  call fails, ListJobs returns an error.
\<close>

theorem ListJobs_selector_and_names:
  "(getJobsClient env (clientSet (tracker s)) (cluster s) = ((jc, None), w1) \<longrightarrow>
    jc_List env jc \<lparr>LabelSelector = ''drmaa2jobsession='' @ jobsession (tracker s),
                    FieldSelector = [], Limit = 0, Continue = []\<rparr> w1
      = ((jobsList, None), w2) \<longrightarrow>
      ListJobs env s = ((map Name (Items jobsList), None), s\<lparr>cluster := w2\<rparr>))
   \<and> (getJobsClient env (clientSet (tracker s)) (cluster s) = ((jc, Some e), w1) \<longrightarrow>
      snd (fst (ListJobs env s)) \<noteq> None)
   \<and> (getJobsClient env (clientSet (tracker s)) (cluster s) = ((jc, None), w1) \<longrightarrow>
      jc_List env jc \<lparr>LabelSelector = ''drmaa2jobsession='' @ jobsession (tracker s),
                      FieldSelector = [], Limit = 0, Continue = []\<rparr> w1
        = ((jobsList, Some e), w2) \<longrightarrow>
      snd (fst (ListJobs env s)) \<noteq> None)"
  by (simp add: ListJobs_def ListOptions_zero_def collect_ids_map)

theorem ListJobs_selector_and_names_witness:
  "ListJobs (lab no_config) shared = (([''job1'', ''job3''], None), shared)
   \<and> snd (fst (ListJobs (lab no_config) no_client)) \<noteq> None
   \<and> snd (fst (ListJobs (lab no_config) offline)) \<noteq> None"
proof -
  have listed: "ListJobs (lab no_config) shared = (([''job1'', ''job3''], None), shared)"
    using ListJobs_selector_and_names [where env = "lab no_config" and s = shared
        and jc = "''default''" and ?w1.0 = "\<lparr>jobs = [job1, job2, job3], answers = True\<rparr>"
        and jobsList = "\<lparr>Items = [job1, job3]\<rparr>"
        and ?w2.0 = "\<lparr>jobs = [job1, job2, job3], answers = True\<rparr>"]
    by (simp add: lab_def lab_getJobsClient_def lab_List_def selected_def shared_def
        session1_def job1_def job2_def job3_def)
  have no_jc: "snd (fst (ListJobs (lab no_config) no_client)) \<noteq> None"
    using ListJobs_selector_and_names [where env = "lab no_config" and s = no_client
        and jc = "[]" and e = "ErrorString ''no clientset''" and ?w1.0 = empty_cluster]
    by (simp add: lab_def lab_getJobsClient_def no_client_def session1_def)
  have no_list: "snd (fst (ListJobs (lab no_config) offline)) \<noteq> None"
    using ListJobs_selector_and_names [where env = "lab no_config" and s = offline
        and jc = "''default''" and ?w1.0 = "\<lparr>jobs = [], answers = False\<rparr>"
        and jobsList = "\<lparr>Items = []\<rparr>" and e = unreachable
        and ?w2.0 = "\<lparr>jobs = [], answers = False\<rparr>"]
    by (simp add: lab_def lab_getJobsClient_def lab_List_def offline_def session1_def)
  from listed no_jc no_list show ?thesis by simp
qed

subsection \<open>The allocator\<close>

text \<open>
  C4, as stated, fails: an interface holding the nil \<^verbatim>\<open>*kubernetes.Clientset\<close>
  pointer is not the nil interface and is of the type asked for, and the allocator
  returns the error of NewClientSet for it when no ambient configuration is found.
\<close>

theorem allocator_New_typed_nil_counterexample:
  "\<not> (IsClientset None \<noteq> NilInterface \<longrightarrow>
       (snd (fst (allocator_New (lab no_config) ''session1'' (IsClientset None) empty_cluster))
          \<noteq> None
        \<longleftrightarrow> \<not> snd (assert_Clientset (IsClientset None))))"
  by (simp add: allocator_New_def New_def lab_def no_config_def)

text \<open>
  C4, amended: for every session name and every initParams other than nil and other
  than a nil \<^verbatim>\<open>*kubernetes.Clientset\<close> pointer, the allocator's New returns an error
  exactly when initParams is not a \<^verbatim>\<open>*kubernetes.Clientset\<close>, and then the type
  error with a nil tracker; for a non-nil clientset pointer it returns a tracker with
  the given session name and that clientset; for nil, and for a nil clientset pointer,
  it returns a tracker with the given session name and the clientset NewClientSet
  built when that succeeds, and the error of NewClientSet when it fails.
\<close>

theorem allocator_New_results:
  "(p \<noteq> NilInterface \<and> p \<noteq> IsClientset None \<longrightarrow>
      (snd (fst (allocator_New env name p w)) \<noteq> None \<longleftrightarrow> \<not> snd (assert_Clientset p)))
   \<and> (p = OtherType t \<longrightarrow>
        allocator_New env name p w
          = ((NilJobTracker,
              Some (ErrorString ''jobTrackerInitParams is not of type *kubernetes.Clientset'')),
             w))
   \<and> (p = IsClientset (Some a) \<longrightarrow>
        allocator_New env name p w
          = ((IsKubernetesTracker (Some \<lparr>clientSet = Some a, jobsession = name\<rparr>), None), w))
   \<and> (p = NilInterface \<or> p = IsClientset None \<longrightarrow>
        NewClientSet env w = ((cs, None), w') \<longrightarrow>
        allocator_New env name p w
          = ((IsKubernetesTracker (Some \<lparr>clientSet = cs, jobsession = name\<rparr>), None), w'))
   \<and> (p = NilInterface \<or> p = IsClientset None \<longrightarrow>
        NewClientSet env w = ((cs, Some e), w') \<longrightarrow>
        allocator_New env name p w = ((IsKubernetesTracker None, Some e), w'))"
proof (cases p)
  case NilInterface
  then show ?thesis by (simp add: allocator_New_def New_def)
next
  case (IsClientset q)
  then show ?thesis by (cases q) (simp_all add: allocator_New_def New_def)
next
  case (OtherType u)
  then show ?thesis by (simp add: allocator_New_def)
qed

theorem allocator_New_results_witness:
  "allocator_New (lab no_config) ''session1'' (OtherType ''string'') empty_cluster
     = ((NilJobTracker,
         Some (ErrorString ''jobTrackerInitParams is not of type *kubernetes.Clientset'')),
        empty_cluster)
   \<and> allocator_New (lab no_config) ''session1'' (IsClientset (Some 3)) empty_cluster
     = ((IsKubernetesTracker (Some \<lparr>clientSet = Some 3, jobsession = ''session1''\<rparr>), None),
        empty_cluster)
   \<and> allocator_New (lab kube_config) ''session1'' NilInterface empty_cluster
     = ((IsKubernetesTracker (Some \<lparr>clientSet = Some 7, jobsession = ''session1''\<rparr>), None),
        empty_cluster)
   \<and> allocator_New (lab no_config) ''session1'' (IsClientset None) empty_cluster
     = ((IsKubernetesTracker None, Some (ErrorString ''opening .kube/config file'')),
        empty_cluster)
   \<and> snd (fst (allocator_New (lab no_config) ''session1'' (OtherType ''string'') empty_cluster))
       \<noteq> None"
proof -
  have a: "allocator_New (lab no_config) ''session1'' (OtherType ''string'') empty_cluster
     = ((NilJobTracker,
         Some (ErrorString ''jobTrackerInitParams is not of type *kubernetes.Clientset'')),
        empty_cluster)"
    using allocator_New_results [where p = "OtherType ''string''" and t = "''string''"
        and env = "lab no_config" and name = "''session1''" and w = empty_cluster]
    by simp
  have b: "allocator_New (lab no_config) ''session1'' (IsClientset (Some 3)) empty_cluster
     = ((IsKubernetesTracker (Some \<lparr>clientSet = Some 3, jobsession = ''session1''\<rparr>), None),
        empty_cluster)"
    using allocator_New_results [where p = "IsClientset (Some 3)" and a = 3
        and env = "lab no_config" and name = "''session1''" and w = empty_cluster]
    by simp
  have c: "allocator_New (lab kube_config) ''session1'' NilInterface empty_cluster
     = ((IsKubernetesTracker (Some \<lparr>clientSet = Some 7, jobsession = ''session1''\<rparr>), None),
        empty_cluster)"
    using allocator_New_results [where p = NilInterface and cs = "Some 7"
        and env = "lab kube_config" and name = "''session1''" and w = empty_cluster
        and w' = empty_cluster]
    by (simp add: lab_def kube_config_def)
  have d: "allocator_New (lab no_config) ''session1'' (IsClientset None) empty_cluster
     = ((IsKubernetesTracker None, Some (ErrorString ''opening .kube/config file'')),
        empty_cluster)"
    using allocator_New_results [where p = "IsClientset None" and cs = None
        and e = "ErrorString ''opening .kube/config file''"
        and env = "lab no_config" and name = "''session1''" and w = empty_cluster
        and w' = empty_cluster]
    by (simp add: lab_def no_config_def)
  have e: "snd (fst (allocator_New (lab no_config) ''session1'' (OtherType ''string'')
                  empty_cluster)) \<noteq> None"
    using allocator_New_results [where p = "OtherType ''string''"
        and env = "lab no_config" and name = "''session1''" and w = empty_cluster]
    by simp
  from a b c d e show ?thesis by simp
qed

subsection \<open>The frame of the tracker\<close>















end
